theory Spec2Isabelle
  imports Main "HOL-Library.Char_ord" "HOL-Library.List_Lexorder"
begin

section \<open>The per-wallet state store (createWalletStoreAndActions)\<close>

text \<open>
  The store of one wallet is a zustand cell holding a \<open>WalletState\<close> together with the
  private counter \<open>nullifier\<close> of the enclosing closure. Both are mutable, so the model
  passes them around as one record and every action returns the store it leaves behind.
  JavaScript numbers that hold integers (chain ids, the counter) are \<open>int\<close> and
  \<open>nat\<close>; \<open>undefined\<close> is \<open>None\<close>. The counter starts at 0 and only ever grows by
  one, and \<open>++\<close> on a JavaScript number is exact below \<open>2^53\<close>, a count no store
  lives to see, so the counter is a natural number without a bound.
\<close>

record WalletState =
  chainId :: "int option"
  accounts :: "string list option"
  isConnecting :: bool

text \<open>\<open>Partial<WalletState>\<close>, the argument of \<open>update\<close>: every field may be absent.\<close>

record StateUpdate =
  u_chainId :: "int option"
  u_accounts :: "string list option"
  u_isConnecting :: "bool option"

record WalletStore =
  state :: WalletState
  nullifier :: nat

datatype walletError = InvalidChainId | InvalidAccount

definition DEFAULT_WALLET_STATE :: WalletState where
  "DEFAULT_WALLET_STATE = \<lparr>chainId = None, accounts = None, isConnecting = False\<rparr>"

definition createWalletStoreAndActions :: WalletStore where
  "createWalletStoreAndActions = \<lparr>state = DEFAULT_WALLET_STATE, nullifier = 0\<rparr>"

text \<open>
  \<open>startConnection\<close> pre-increments the counter, keeps the new value in
  \<open>nullifierCached\<close> and merges \<open>{isConnecting: true}\<close> into the state. The closure
  it returns is determined by the cached value, so the model returns that value and
  \<open>endConnection\<close> takes it as its first argument.
\<close>

definition startConnection :: "WalletStore \<Rightarrow> nat \<times> WalletStore" where
  "startConnection s =
     (let nullifierCached = nullifier s + 1
      in (nullifierCached,
          s\<lparr>nullifier := nullifierCached, state := (state s)\<lparr>isConnecting := True\<rparr>\<rparr>))"

definition endConnection :: "nat \<Rightarrow> WalletStore \<Rightarrow> WalletStore" where
  "endConnection nullifierCached s =
     (if nullifier s = nullifierCached
      then s\<lparr>state := (state s)\<lparr>isConnecting := False\<rparr>\<rparr>
      else s)"

text \<open>
  Modelled from the spec: \<open>validateChainId\<close> of \<open>./utils\<close>, which is not among the
  sources. The spec says it fails with \<open>InvalidChainId\<close> if the chain id is not a
  positive integer.
\<close>

definition validateChainId :: "int \<Rightarrow> walletError + unit" where
  "validateChainId c = (if 0 < c then Inr () else Inl InvalidChainId)"

text \<open>
  Modelled from the spec: \<open>validateAccount\<close> of \<open>./utils\<close>, which is not among the
  sources. The spec says it fails with \<open>InvalidAccount\<close> if the account is not a
  well-formed address-like string and says nothing else about it; what counts as
  well formed is left open there, so it is the parameter \<open>wellFormed\<close>, and a
  well-formed account is returned as it is. (\<open>update\<close> stores the returned value.)
\<close>

definition validateAccount :: "(string \<Rightarrow> bool) \<Rightarrow> string \<Rightarrow> walletError + string" where
  "validateAccount wellFormed account =
     (if wellFormed account then Inr account else Inl InvalidAccount)"

text \<open>
  The loop of \<open>update\<close> over \<open>stateUpdate.accounts\<close>: each element is replaced by what
  \<open>validateAccount\<close> returns, and the first failure leaves the loop.
\<close>

fun validateAccounts :: "(string \<Rightarrow> bool) \<Rightarrow> string list \<Rightarrow> walletError + string list" where
  "validateAccounts wellFormed [] = Inr []"
| "validateAccounts wellFormed (a # rest) =
     (case validateAccount wellFormed a of
        Inl e \<Rightarrow> Inl e
      | Inr a' \<Rightarrow>
          (case validateAccounts wellFormed rest of
             Inl e \<Rightarrow> Inl e
           | Inr rest' \<Rightarrow> Inr (a' # rest')))"

text \<open>
  The reducer passed to \<open>store.setState\<close>. \<open>??\<close> takes the left operand unless it is
  \<open>undefined\<close>. The test \<open>isConnecting && chainId && accounts\<close> is on truthiness: a
  number is truthy unless it is 0, an array always is.
\<close>

definition truthyNumber :: "int option \<Rightarrow> bool" where
  "truthyNumber n = (case n of None \<Rightarrow> False | Some k \<Rightarrow> k \<noteq> 0)"

definition mergeState :: "int option \<Rightarrow> string list option \<Rightarrow> WalletState \<Rightarrow> WalletState" where
  "mergeState newChainId newAccounts existingState =
     (let chainId' = (case newChainId of Some c \<Rightarrow> Some c | None \<Rightarrow> chainId existingState);
          accounts' = (case newAccounts of Some a \<Rightarrow> Some a | None \<Rightarrow> accounts existingState);
          isConnecting' =
            (if isConnecting existingState \<and> truthyNumber chainId' \<and> accounts' \<noteq> None
             then False else isConnecting existingState)
      in \<lparr>chainId = chainId', accounts = accounts', isConnecting = isConnecting'\<rparr>)"

text \<open>
  \<open>update\<close> in the order of its statements: validate the chain id if there is one,
  validate the accounts if there are any, increment the counter, set the state. A
  failed validation throws; the result is the error together with the store as the
  throw leaves it.
\<close>

definition update ::
  "(string \<Rightarrow> bool) \<Rightarrow> StateUpdate \<Rightarrow> WalletStore \<Rightarrow> (walletError + unit) \<times> WalletStore" where
  "update wellFormed stateUpdate s =
     (case (case u_chainId stateUpdate of None \<Rightarrow> Inr () | Some c \<Rightarrow> validateChainId c) of
        Inl e \<Rightarrow> (Inl e, s)
      | Inr _ \<Rightarrow>
          (case (case u_accounts stateUpdate of
                   None \<Rightarrow> Inr None
                 | Some as \<Rightarrow>
                     (case validateAccounts wellFormed as of
                        Inl e \<Rightarrow> Inl e | Inr as' \<Rightarrow> Inr (Some as'))) of
             Inl e \<Rightarrow> (Inl e, s)
           | Inr validated \<Rightarrow>
               (let s1 = s\<lparr>nullifier := nullifier s + 1\<rparr>
                in (Inr (),
                    s1\<lparr>state := mergeState (u_chainId stateUpdate) validated (state s1)\<rparr>))))"

definition resetState :: "WalletStore \<Rightarrow> WalletStore" where
  "resetState s = s\<lparr>nullifier := nullifier s + 1, state := DEFAULT_WALLET_STATE\<rparr>"

text \<open>
  The calls a connector can make on one store, and a run of them. \<open>EndConnection t\<close>
  is a call of the closure that cached \<open>t\<close>. An \<open>update\<close> that throws leaves the run
  with the store it leaves behind.
\<close>

datatype action =
  StartConnection
| Update StateUpdate
| ResetState
| EndConnection nat

fun step :: "(string \<Rightarrow> bool) \<Rightarrow> WalletStore \<Rightarrow> action \<Rightarrow> WalletStore" where
  "step wellFormed s StartConnection = snd (startConnection s)"
| "step wellFormed s (Update stateUpdate) = snd (update wellFormed stateUpdate s)"
| "step wellFormed s ResetState = resetState s"
| "step wellFormed s (EndConnection t) = endConnection t s"

definition run :: "(string \<Rightarrow> bool) \<Rightarrow> action list \<Rightarrow> WalletStore \<Rightarrow> WalletStore" where
  "run wellFormed acts s = foldl (step wellFormed) s acts"

text \<open>
  A lifecycle event in the sense of the token: a \<open>startConnection\<close>, a \<open>resetState\<close>,
  or an \<open>update\<close> that passes validation. Validation looks at the argument only.
\<close>

definition passes :: "(string \<Rightarrow> bool) \<Rightarrow> StateUpdate \<Rightarrow> bool" where
  "passes wellFormed stateUpdate =
     ((case u_chainId stateUpdate of None \<Rightarrow> True | Some c \<Rightarrow> 0 < c) \<and>
      (case u_accounts stateUpdate of None \<Rightarrow> True | Some as \<Rightarrow> list_all wellFormed as))"

fun lifecycleEvent :: "(string \<Rightarrow> bool) \<Rightarrow> action \<Rightarrow> bool" where
  "lifecycleEvent wellFormed StartConnection = True"
| "lifecycleEvent wellFormed (Update stateUpdate) = passes wellFormed stateUpdate"
| "lifecycleEvent wellFormed ResetState = True"
| "lifecycleEvent wellFormed (EndConnection t) = False"

text \<open>The data model's condition on a state: a chain id, when set, is positive.\<close>

definition chainIdPositive :: "WalletState \<Rightarrow> bool" where
  "chainIdPositive st = (case chainId st of None \<Rightarrow> True | Some c \<Rightarrow> 0 < c)"

section \<open>The wallet proxy (createWalletProxy)\<close>

text \<open>
  The proxy keeps \<open>{currentWallet, connectionId}\<close> in a zustand store of its own,
  \<open>useStore\<close>. Hooks and connectors are supplied by the wallets and do what they like
  to the rest of the program, so the model threads one \<open>system\<close> state through every
  call: the proxy's store and a \<open>world\<close> for everything else. A hook, and a connector
  call while it is awaited, is a function on the whole system state. A hook returns a
  value, as its type \<open>(...args) => T\<close> says; a connector call returns a promise, which
  may be rejected.
\<close>

record WalletProxyState =
  currentWallet :: "string option"
  connectionId :: "int option"

record 'w system =
  useStore :: WalletProxyState
  world :: 'w

text \<open>
  A connector call returns a promise: \<open>Inl e\<close> is a rejection with \<open>e\<close>, \<open>Inr r\<close>
  a value. \<open>'a\<close> is the argument list.
\<close>

record ('a, 'e, 'r, 's) Connector =
  connect :: "'a \<Rightarrow> 's \<Rightarrow> ('e + unit) \<times> 's"
  autoConnect :: "'a \<Rightarrow> 's \<Rightarrow> ('e + bool) \<times> 's"
  autoConnectOnce :: "'a \<Rightarrow> 's \<Rightarrow> ('e + bool) \<times> 's"
  disconnect :: "'a \<Rightarrow> 's \<Rightarrow> ('e + 'r) \<times> 's"

text \<open>
  \<open>hooks\<close> is a JavaScript object read through \<open>Object.keys\<close> and by name, so it is
  an association list from hook names to hook functions.
\<close>

record ('a, 'e, 'r, 'v, 's) Wallet =
  name :: string
  connector :: "('a, 'e, 'r, 's) Connector"
  hooks :: "(string \<times> ('a \<Rightarrow> 's \<Rightarrow> 'v \<times> 's)) list"

record Options =
  defaultCurrentWallet :: "string option"
  key :: "string option"

datatype proxyError = EmptyWalletSet | TypeError

text \<open>
  What \<open>createWalletProxy\<close> builds before it returns its closures: the copy of the
  wallet list, the persist key and the store, given by the state it starts in.
\<close>

record ('a, 'e, 'r, 'v, 's) WalletProxy =
  wallets :: "('a, 'e, 'r, 'v, 's) Wallet list"
  persistKey :: string
  initialState :: WalletProxyState

text \<open>
  The store is wrapped in zustand's \<open>persist\<close> middleware with \<open>name: key\<close> and
  \<open>version: 0\<close>. What the storage holds under a key is a \<open>StorageValue\<close>: the saved
  state, in which a field may be missing, and the version it was saved with.
\<close>

record StorageValue =
  saved_state :: WalletProxyState
  saved_version :: "int option"

text \<open>
  The middleware's load on creation. With nothing saved the store keeps the state it
  was created with. A saved value whose version is a number other than 0 is not used
  (no \<open>migrate\<close> is given). Otherwise the saved state is merged over the created one,
  \<open>{...created, ...saved}\<close>: every saved field replaces the created field.
\<close>

definition hydrate :: "StorageValue option \<Rightarrow> WalletProxyState \<Rightarrow> WalletProxyState" where
  "hydrate item created =
     (case item of
        None \<Rightarrow> created
      | Some v \<Rightarrow>
          if (case saved_version v of None \<Rightarrow> False | Some n \<Rightarrow> n \<noteq> 0) then created
          else \<lparr>currentWallet =
                  (case currentWallet (saved_state v) of
                     Some n \<Rightarrow> Some n | None \<Rightarrow> currentWallet created),
                connectionId =
                  (case connectionId (saved_state v) of
                     Some c \<Rightarrow> Some c | None \<Rightarrow> connectionId created)\<rparr>)"

text \<open>
  \<open>createWalletProxy\<close>. \<open>storage\<close> is what the persist storage returns for a key.
  \<open>defaultCurrentWallet || wallets[0].name\<close> takes the right operand when the left
  one is falsy: \<open>undefined\<close> or the empty string. The error is the
  \<open>Error("wallets can't be empty")\<close> of the source; it is thrown before the store is
  made. \<open>initialState\<close> is the state of the store when \<open>createWalletProxy\<close> returns.
  (The middleware also writes the state back on every change; nothing here reads the
  storage a second time, so the writes are not part of the model.)
\<close>

definition createWalletProxy ::
  "('a, 'e, 'r, 'v, 's) Wallet list \<Rightarrow> Options \<Rightarrow> (string \<Rightarrow> StorageValue option) \<Rightarrow>
   proxyError + ('a, 'e, 'r, 'v, 's) WalletProxy" where
  "createWalletProxy ws options storage =
     (let key' = (case key options of None \<Rightarrow> ''@web3-wallet'' | Some k \<Rightarrow> k)
      in if length ws = 0 then Inl EmptyWalletSet
         else Inr \<lparr>wallets = ws,
                   persistKey = key',
                   initialState =
                     hydrate (storage key')
                       \<lparr>currentWallet =
                          Some (case defaultCurrentWallet options of
                                  None \<Rightarrow> name (hd ws)
                                | Some d \<Rightarrow> if d = [] then name (hd ws) else d),
                        connectionId = None\<rparr>\<rparr>)"

definition setCurrentWallet :: "string \<Rightarrow> 'w system \<Rightarrow> 'w system" where
  "setCurrentWallet walletName s =
     s\<lparr>useStore := (useStore s)\<lparr>currentWallet := Some walletName\<rparr>\<rparr>"

text \<open>
  React's \<open>useMemo(calculate, [dep])\<close>: the component keeps the dependency and the value
  of its last computation; a call with the same dependency returns the kept value and
  does not run \<open>calculate\<close>. The cell is \<open>None\<close> before the component's first render.
\<close>

definition useMemo ::
  "('s \<Rightarrow> 'x \<times> 's) \<Rightarrow> 'd \<Rightarrow> ('d \<times> 'x) option \<Rightarrow> 's \<Rightarrow> 'x \<times> ('d \<times> 'x) option \<times> 's" where
  "useMemo calculate dep memo s =
     (case memo of
        None \<Rightarrow> (case calculate s of (x, s') \<Rightarrow> (x, Some (dep, x), s'))
      | Some (dep', cached) \<Rightarrow>
          if dep' = dep then (cached, memo, s)
          else (case calculate s of (x, s') \<Rightarrow> (x, Some (dep, x), s')))"

text \<open>
  \<open>useCurrentWallet\<close>. The closures exist only after \<open>createWalletProxy\<close> has found
  the list non-empty, so \<open>wallets[0]\<close> is \<open>hd\<close>.
\<close>

definition useCurrentWallet ::
  "('a, 'e, 'r, 'v, 'w system) Wallet list \<Rightarrow>
   (string option \<times> ('a, 'e, 'r, 'v, 'w system) Wallet) option \<Rightarrow> 'w system \<Rightarrow>
   ('a, 'e, 'r, 'v, 'w system) Wallet \<times>
   (string option \<times> ('a, 'e, 'r, 'v, 'w system) Wallet) option \<times> 'w system" where
  "useCurrentWallet ws memo s =
     (let currentWalletName = currentWallet (useStore s)
      in useMemo
           (\<lambda>s. case find (\<lambda>w. Some (name w) = currentWalletName) ws of
                  None \<Rightarrow> (hd ws, setCurrentWallet (name (hd ws)) s)
                | Some found \<Rightarrow> (found, s))
           currentWalletName memo s)"

definition useConnectionId :: "'w system \<Rightarrow> int option" where
  "useConnectionId s = connectionId (useStore s)"

text \<open>
  The loop of a combined hook: every wallet's hook is called, the value is kept when
  the wallet's name is \<open>currentWalletName\<close>. \<open>hookFnOutput\<close> starts as \<open>undefined\<close>,
  here \<open>None\<close>. Calling a hook the wallet does not have is a \<open>TypeError\<close>.
\<close>

fun callHooks ::
  "('a, 'e, 'r, 'v, 's) Wallet list \<Rightarrow> string \<Rightarrow> string option \<Rightarrow> 'a \<Rightarrow> 'v option \<Rightarrow> 's \<Rightarrow>
   (proxyError + 'v option) \<times> 's" where
  "callHooks [] hookName currentWalletName args hookFnOutput s = (Inr hookFnOutput, s)"
| "callHooks (wallet # rest) hookName currentWalletName args hookFnOutput s =
     (case map_of (hooks wallet) hookName of
        None \<Rightarrow> (Inl TypeError, s)
      | Some hookFn \<Rightarrow>
          (case hookFn args s of
             (value, s') \<Rightarrow>
               callHooks rest hookName currentWalletName args
                 (if Some (name wallet) = currentWalletName then Some value else hookFnOutput)
                 s'))"

definition combinedHook ::
  "('a, 'e, 'r, 'v, 'w system) Wallet list \<Rightarrow> string \<Rightarrow> 'a \<Rightarrow> 'w system \<Rightarrow>
   (proxyError + 'v option) \<times> 'w system" where
  "combinedHook ws hookName args s =
     (let currentWalletName = currentWallet (useStore s)
      in callHooks ws hookName currentWalletName args None s)"

definition getCombinedHooks ::
  "('a, 'e, 'r, 'v, 'w system) Wallet list \<Rightarrow>
   (string \<times> ('a \<Rightarrow> 'w system \<Rightarrow> (proxyError + 'v option) \<times> 'w system)) list" where
  "getCombinedHooks ws =
     map (\<lambda>hookName. (hookName, combinedHook ws hookName))
         (sort (map fst (hooks (hd ws))))"

text \<open>
  The four connector wrappers. Each \<open>use...\<close> reads the current wallet and returns a
  closure over it; the closure's body is the definition named after both. \<open>now\<close> is
  what \<open>Date.now()\<close> returns when the closure reaches it, after the awaited call.
\<close>

definition useConnect_connect ::
  "('a, 'e, 'r, 'v, 'w system) Wallet \<Rightarrow> 'a \<Rightarrow> int \<Rightarrow> 'w system \<Rightarrow> ('e + unit) \<times> 'w system" where
  "useConnect_connect wallet args now s =
     (case connect (connector wallet) args s of
        (Inl e, s') \<Rightarrow> (Inl e, s')
      | (Inr _, s') \<Rightarrow> (Inr (), s'\<lparr>useStore := (useStore s')\<lparr>connectionId := Some now\<rparr>\<rparr>))"

definition useAutoConnect_autoConnect ::
  "('a, 'e, 'r, 'v, 'w system) Wallet \<Rightarrow> 'a \<Rightarrow> int \<Rightarrow> 'w system \<Rightarrow> ('e + bool) \<times> 'w system" where
  "useAutoConnect_autoConnect wallet args now s =
     (case autoConnect (connector wallet) args s of
        (Inl e, s') \<Rightarrow> (Inl e, s')
      | (Inr result, s') \<Rightarrow>
          (Inr result, s'\<lparr>useStore := (useStore s')\<lparr>connectionId := Some now\<rparr>\<rparr>))"

text \<open>
  \<open>!connectionId\<close> holds for \<open>undefined\<close> and for 0. The \<open>console.debug\<close> line
  touches nothing the model keeps.
\<close>

definition useAutoConnectOnce_autoConnectOnce ::
  "('a, 'e, 'r, 'v, 'w system) Wallet \<Rightarrow> 'a \<Rightarrow> 'w system \<Rightarrow> ('e + bool) \<times> 'w system" where
  "useAutoConnectOnce_autoConnectOnce wallet args s =
     (let connectionId' = connectionId (useStore s)
      in if \<not> truthyNumber connectionId' then (Inr False, s)
         else autoConnectOnce (connector wallet) args s)"

definition useDisconnect_disconnect ::
  "('a, 'e, 'r, 'v, 'w system) Wallet \<Rightarrow> 'a \<Rightarrow> 'w system \<Rightarrow> ('e + 'r) \<times> 'w system" where
  "useDisconnect_disconnect wallet args s =
     (case disconnect (connector wallet) args s of
        (Inl e, s') \<Rightarrow> (Inl e, s')
      | (Inr result, s') \<Rightarrow>
          (Inr result, s'\<lparr>useStore := (useStore s')\<lparr>connectionId := None\<rparr>\<rparr>))"

definition useConnect ::
  "('a, 'e, 'r, 'v, 'w system) Wallet list \<Rightarrow>
   (string option \<times> ('a, 'e, 'r, 'v, 'w system) Wallet) option \<Rightarrow> 'w system \<Rightarrow>
   ('a \<Rightarrow> int \<Rightarrow> 'w system \<Rightarrow> ('e + unit) \<times> 'w system) \<times>
   (string option \<times> ('a, 'e, 'r, 'v, 'w system) Wallet) option \<times> 'w system" where
  "useConnect ws memo s =
     (case useCurrentWallet ws memo s of
        (wallet, memo', s') \<Rightarrow> (useConnect_connect wallet, memo', s'))"

definition useAutoConnect ::
  "('a, 'e, 'r, 'v, 'w system) Wallet list \<Rightarrow>
   (string option \<times> ('a, 'e, 'r, 'v, 'w system) Wallet) option \<Rightarrow> 'w system \<Rightarrow>
   ('a \<Rightarrow> int \<Rightarrow> 'w system \<Rightarrow> ('e + bool) \<times> 'w system) \<times>
   (string option \<times> ('a, 'e, 'r, 'v, 'w system) Wallet) option \<times> 'w system" where
  "useAutoConnect ws memo s =
     (case useCurrentWallet ws memo s of
        (wallet, memo', s') \<Rightarrow> (useAutoConnect_autoConnect wallet, memo', s'))"

definition useAutoConnectOnce ::
  "('a, 'e, 'r, 'v, 'w system) Wallet list \<Rightarrow>
   (string option \<times> ('a, 'e, 'r, 'v, 'w system) Wallet) option \<Rightarrow> 'w system \<Rightarrow>
   ('a \<Rightarrow> 'w system \<Rightarrow> ('e + bool) \<times> 'w system) \<times>
   (string option \<times> ('a, 'e, 'r, 'v, 'w system) Wallet) option \<times> 'w system" where
  "useAutoConnectOnce ws memo s =
     (case useCurrentWallet ws memo s of
        (wallet, memo', s') \<Rightarrow> (useAutoConnectOnce_autoConnectOnce wallet, memo', s'))"

definition useDisconnect ::
  "('a, 'e, 'r, 'v, 'w system) Wallet list \<Rightarrow>
   (string option \<times> ('a, 'e, 'r, 'v, 'w system) Wallet) option \<Rightarrow> 'w system \<Rightarrow>
   ('a \<Rightarrow> 'w system \<Rightarrow> ('e + 'r) \<times> 'w system) \<times>
   (string option \<times> ('a, 'e, 'r, 'v, 'w system) Wallet) option \<times> 'w system" where
  "useDisconnect ws memo s =
     (case useCurrentWallet ws memo s of
        (wallet, memo', s') \<Rightarrow> (useDisconnect_disconnect wallet, memo', s'))"

section \<open>Reference notions for the proxy\<close>

text \<open>
  The combinator in the spec's words: invoke each wallet's hook of that name once, in
  registration order, with the given arguments, and record each return value under
  the wallet's name. The argument pairs each wallet's name with its hook.
\<close>

fun invokeEach ::
  "(string \<times> ('a \<Rightarrow> 's \<Rightarrow> 'v \<times> 's)) list \<Rightarrow> 'a \<Rightarrow> 's \<Rightarrow> (string \<times> 'v) list \<times> 's" where
  "invokeEach [] args s = ([], s)"
| "invokeEach ((walletName, hookFn) # rest) args s =
     (case hookFn args s of
        (v, s1) \<Rightarrow>
          (case invokeEach rest args s1 of
             (recorded, s2) \<Rightarrow> ((walletName, v) # recorded, s2)))"

text \<open>
  The value recorded from the wallet named \<open>current\<close>; \<open>None\<close> is \<open>undefined\<close>.
  Names are unique in a registered wallet set; were one repeated, the wallet
  registered last would count.
\<close>

definition recordedFor :: "string option \<Rightarrow> (string \<times> 'v) list \<Rightarrow> 'v option" where
  "recordedFor current recorded =
     (case current of None \<Rightarrow> None | Some n \<Rightarrow> map_of (rev recorded) n)"

text \<open>The wallet a name stands for: the registered wallet of that name, else the first.\<close>

definition walletFor ::
  "('a, 'e, 'r, 'v, 's) Wallet list \<Rightarrow> string option \<Rightarrow> ('a, 'e, 'r, 'v, 's) Wallet" where
  "walletFor ws n =
     (case find (\<lambda>w. Some (name w) = n) ws of None \<Rightarrow> hd ws | Some found \<Rightarrow> found)"

text \<open>
  A memo cell of \<open>useCurrentWallet\<close> is either empty or holds what an earlier read
  through the same proxy computed for the name it saw.
\<close>

definition memoFrom ::
  "('a, 'e, 'r, 'v, 's) Wallet list \<Rightarrow>
   (string option \<times> ('a, 'e, 'r, 'v, 's) Wallet) option \<Rightarrow> bool" where
  "memoFrom ws memo =
     (case memo of None \<Rightarrow> True | Some (dep, cached) \<Rightarrow> cached = walletFor ws dep)"

section \<open>Instances for the examples\<close>

text \<open>
  One reading of ``well-formed address-like string'', used where a theorem is applied
  to concrete data: \<open>0x\<close> followed by forty hexadecimal digits.
\<close>

definition hexDigit :: "char \<Rightarrow> bool" where
  "hexDigit c = (c \<in> set ''0123456789abcdefABCDEF'')"

definition hexAddress :: "string \<Rightarrow> bool" where
  "hexAddress a = (length a = 42 \<and> take 2 a = ''0x'' \<and> list_all hexDigit (drop 2 a))"

text \<open>
  Wallets for the examples. The world is a log; every hook and connector call appends
  its own name to it, so the log shows what was called and in which order.
\<close>

definition logCall :: "string \<Rightarrow> string list system \<Rightarrow> string list system" where
  "logCall entry s = s\<lparr>world := world s @ [entry]\<rparr>"

definition demoConnector ::
  "string \<Rightarrow> (unit, string, bool, string list system) Connector" where
  "demoConnector n =
     \<lparr>connect = (\<lambda>args s. (Inr (), logCall (n @ ''.connect'') s)),
      autoConnect = (\<lambda>args s. (Inr False, logCall (n @ ''.autoConnect'') s)),
      autoConnectOnce = (\<lambda>args s. (Inr True, logCall (n @ ''.autoConnectOnce'') s)),
      disconnect = (\<lambda>args s. (Inr True, logCall (n @ ''.disconnect'') s))\<rparr>"

definition rejectingConnector ::
  "string \<Rightarrow> (unit, string, bool, string list system) Connector" where
  "rejectingConnector n =
     \<lparr>connect = (\<lambda>args s. (Inl ''rejected'', logCall (n @ ''.connect'') s)),
      autoConnect = (\<lambda>args s. (Inl ''rejected'', logCall (n @ ''.autoConnect'') s)),
      autoConnectOnce = (\<lambda>args s. (Inl ''rejected'', logCall (n @ ''.autoConnectOnce'') s)),
      disconnect = (\<lambda>args s. (Inl ''rejected'', logCall (n @ ''.disconnect'') s))\<rparr>"

definition demoHooks ::
  "string \<Rightarrow> nat \<Rightarrow> (string \<times> (unit \<Rightarrow> string list system \<Rightarrow> nat \<times> string list system)) list" where
  "demoHooks n v = [(''useAccounts'', \<lambda>args s. (v, logCall (n @ ''.useAccounts'') s))]"

definition demoWallet ::
  "string \<Rightarrow> nat \<Rightarrow> (unit, string, bool, nat, string list system) Wallet" where
  "demoWallet n v = \<lparr>name = n, connector = demoConnector n, hooks = demoHooks n v\<rparr>"

definition rejectingWallet ::
  "string \<Rightarrow> nat \<Rightarrow> (unit, string, bool, nat, string list system) Wallet" where
  "rejectingWallet n v = \<lparr>name = n, connector = rejectingConnector n, hooks = demoHooks n v\<rparr>"

definition demoSystem :: "string option \<Rightarrow> int option \<Rightarrow> string list system" where
  "demoSystem current cid =
     \<lparr>useStore = \<lparr>currentWallet = current, connectionId = cid\<rparr>, world = []\<rparr>"

text \<open>Two storages: one that holds nothing, one with a record saved under the default key.\<close>

definition emptyStorage :: "string \<Rightarrow> StorageValue option" where
  "emptyStorage k = None"

definition savedStorage :: "string \<Rightarrow> StorageValue option" where
  "savedStorage k =
     (if k = ''@web3-wallet''
      then Some \<lparr>saved_state = \<lparr>currentWallet = Some ''B'', connectionId = Some 7\<rparr>,
                 saved_version = Some 0\<rparr>
      else None)"

section \<open>Facts about the store\<close>

lemma validateAccounts_ok:
  "list_all wellFormed as \<Longrightarrow> validateAccounts wellFormed as = Inr as"
  by (induction as) (simp_all add: validateAccount_def)

lemma validateAccounts_bad:
  "\<not> list_all wellFormed as \<Longrightarrow> validateAccounts wellFormed as = Inl InvalidAccount"
  by (induction as) (auto simp: validateAccount_def split: sum.splits)

lemma update_passes:
  "passes wellFormed u \<Longrightarrow>
   update wellFormed u s =
     (Inr (), \<lparr>state = mergeState (u_chainId u) (u_accounts u) (state s),
              nullifier = nullifier s + 1\<rparr>)"
  by (auto simp: passes_def update_def validateChainId_def validateAccounts_ok Let_def
           split: option.splits)

lemma update_fails:
  "\<not> passes wellFormed u \<Longrightarrow>
   update wellFormed u s =
     (Inl (if (case u_chainId u of None \<Rightarrow> False | Some c \<Rightarrow> c \<le> 0)
           then InvalidChainId else InvalidAccount), s)"
  by (auto simp: passes_def update_def validateChainId_def validateAccounts_ok
                 validateAccounts_bad Let_def
           split: option.splits)

lemma nullifier_step:
  "nullifier (step wellFormed s a) =
     nullifier s + (if lifecycleEvent wellFormed a then 1 else 0)"
proof (cases a)
  case StartConnection
  then show ?thesis by (simp add: startConnection_def Let_def)
next
  case (Update u)
  then show ?thesis
    by (cases "passes wellFormed u") (simp_all add: update_passes update_fails)
next
  case ResetState
  then show ?thesis by (simp add: resetState_def)
next
  case (EndConnection t)
  then show ?thesis by (simp add: endConnection_def)
qed

lemma nullifier_run:
  "nullifier (run wellFormed acts s) =
     nullifier s + length (filter (lifecycleEvent wellFormed) acts)"
  unfolding run_def
  by (induction acts arbitrary: s) (simp_all add: nullifier_step)

lemma chainIdPositive_mergeState:
  "chainIdPositive st \<Longrightarrow> (case c of None \<Rightarrow> True | Some k \<Rightarrow> 0 < k) \<Longrightarrow>
   chainIdPositive (mergeState c a st)"
  by (simp add: chainIdPositive_def mergeState_def Let_def split: option.splits)

lemma chainIdPositive_step:
  assumes "chainIdPositive (state s)"
  shows "chainIdPositive (state (step wellFormed s a))"
proof (cases a)
  case StartConnection
  with assms show ?thesis by (simp add: startConnection_def Let_def chainIdPositive_def)
next
  case (Update u)
  show ?thesis
  proof (cases "passes wellFormed u")
    case True
    then have "case u_chainId u of None \<Rightarrow> True | Some k \<Rightarrow> 0 < k"
      by (simp add: passes_def)
    with assms Update True show ?thesis
      by (simp add: update_passes chainIdPositive_mergeState)
  next
    case False
    with assms Update show ?thesis by (simp add: update_fails)
  qed
next
  case ResetState
  then show ?thesis by (simp add: resetState_def DEFAULT_WALLET_STATE_def chainIdPositive_def)
next
  case (EndConnection t)
  with assms show ?thesis by (simp add: endConnection_def chainIdPositive_def)
qed

lemma chainIdPositive_run:
  "chainIdPositive (state s) \<Longrightarrow> chainIdPositive (state (run wellFormed acts s))"
  unfolding run_def
  by (induction acts arbitrary: s) (simp_all add: chainIdPositive_step)

lemma chainIdPositive_reachable:
  "chainIdPositive (state (run wellFormed acts createWalletStoreAndActions))"
  by (rule chainIdPositive_run)
     (simp add: createWalletStoreAndActions_def DEFAULT_WALLET_STATE_def chainIdPositive_def)

lemma update_result_cases:
  "update wellFormed u s = (r, s') \<Longrightarrow>
   (passes wellFormed u \<and> r = Inr ()) \<or> (\<not> passes wellFormed u \<and> s' = s \<and> (\<exists>e. r = Inl e))"
  by (cases "passes wellFormed u") (auto simp: update_passes update_fails)

section \<open>The connection token\<close>

text \<open>
  C1. Let \<open>startConnection\<close> return the closure that cached \<open>tok\<close>, and let any calls
  \<open>acts\<close> on the same store follow. If none of them is a lifecycle event (another
  \<open>startConnection\<close>, a \<open>resetState\<close>, an \<open>update\<close> that went through), the closure
  sets \<open>isConnecting\<close> to false and changes nothing else; if one of them is, the
  closure leaves the store as it is. In particular, after a second \<open>startConnection\<close>
  the first closure does nothing and the second one clears \<open>isConnecting\<close>. An
  \<open>update\<close> is an event exactly when it returns; one that throws has not changed the
  store (C10).
\<close>

theorem endConnection_clears_iff_no_event_since:
  assumes "startConnection s0 = (tok, s1)"
  shows "((\<forall>a\<in>set acts. \<not> lifecycleEvent wellFormed a) \<longrightarrow>
            endConnection tok (run wellFormed acts s1) =
              (run wellFormed acts s1)
                \<lparr>state := (state (run wellFormed acts s1))\<lparr>isConnecting := False\<rparr>\<rparr>) \<and>
         ((\<exists>a\<in>set acts. lifecycleEvent wellFormed a) \<longrightarrow>
            endConnection tok (run wellFormed acts s1) = run wellFormed acts s1) \<and>
         (startConnection s1 = (tok2, s2) \<longrightarrow>
            endConnection tok s2 = s2 \<and>
            endConnection tok2 s2 = s2\<lparr>state := (state s2)\<lparr>isConnecting := False\<rparr>\<rparr>) \<and>
         lifecycleEvent wellFormed (Update u) = (fst (update wellFormed u t) = Inr ())"
proof -
  from assms have tok: "nullifier s1 = tok"
    by (auto simp: startConnection_def Let_def)
  have count: "nullifier (run wellFormed acts s1) =
                 tok + length (filter (lifecycleEvent wellFormed) acts)"
    by (simp add: nullifier_run tok)
  have none: "(\<forall>a\<in>set acts. \<not> lifecycleEvent wellFormed a) \<Longrightarrow>
                filter (lifecycleEvent wellFormed) acts = []"
    by (simp add: filter_empty_conv)
  have some: "(\<exists>a\<in>set acts. lifecycleEvent wellFormed a) \<Longrightarrow>
                0 < length (filter (lifecycleEvent wellFormed) acts)"
    by (simp add: filter_empty_conv)
  have first: "(\<forall>a\<in>set acts. \<not> lifecycleEvent wellFormed a) \<longrightarrow>
            endConnection tok (run wellFormed acts s1) =
              (run wellFormed acts s1)
                \<lparr>state := (state (run wellFormed acts s1))\<lparr>isConnecting := False\<rparr>\<rparr>"
    using count none by (simp add: endConnection_def)
  have second: "(\<exists>a\<in>set acts. lifecycleEvent wellFormed a) \<longrightarrow>
            endConnection tok (run wellFormed acts s1) = run wellFormed acts s1"
  proof
    assume "\<exists>a\<in>set acts. lifecycleEvent wellFormed a"
    then have "nullifier (run wellFormed acts s1) \<noteq> tok"
      using count some by simp
    then show "endConnection tok (run wellFormed acts s1) = run wellFormed acts s1"
      by (simp add: endConnection_def)
  qed
  have third: "startConnection s1 = (tok2, s2) \<longrightarrow>
            endConnection tok s2 = s2 \<and>
            endConnection tok2 s2 = s2\<lparr>state := (state s2)\<lparr>isConnecting := False\<rparr>\<rparr>"
    using tok by (auto simp: startConnection_def Let_def endConnection_def)
  have fourth: "lifecycleEvent wellFormed (Update u) = (fst (update wellFormed u t) = Inr ())"
    by (cases "passes wellFormed u") (simp_all add: update_passes update_fails)
  from first second third fourth show ?thesis by blast
qed

theorem endConnection_clears_iff_no_event_since_witness:
  "startConnection createWalletStoreAndActions =
     (1, \<lparr>state = \<lparr>chainId = None, accounts = None, isConnecting = True\<rparr>, nullifier = 1\<rparr>) \<and>
   startConnection \<lparr>state = \<lparr>chainId = None, accounts = None, isConnecting = True\<rparr>, nullifier = 1\<rparr> =
     (2, \<lparr>state = \<lparr>chainId = None, accounts = None, isConnecting = True\<rparr>, nullifier = 2\<rparr>) \<and>
   endConnection 1 \<lparr>state = \<lparr>chainId = None, accounts = None, isConnecting = True\<rparr>, nullifier = 2\<rparr> =
     \<lparr>state = \<lparr>chainId = None, accounts = None, isConnecting = True\<rparr>, nullifier = 2\<rparr> \<and>
   endConnection 2 \<lparr>state = \<lparr>chainId = None, accounts = None, isConnecting = True\<rparr>, nullifier = 2\<rparr> =
     \<lparr>state = \<lparr>chainId = None, accounts = None, isConnecting = False\<rparr>, nullifier = 2\<rparr> \<and>
   endConnection 1 (run (\<lambda>a. True) [ResetState]
       \<lparr>state = \<lparr>chainId = None, accounts = None, isConnecting = True\<rparr>, nullifier = 1\<rparr>) =
     \<lparr>state = \<lparr>chainId = None, accounts = None, isConnecting = False\<rparr>, nullifier = 2\<rparr> \<and>
   endConnection 1 (run (\<lambda>a. True) [EndConnection 7]
       \<lparr>state = \<lparr>chainId = None, accounts = None, isConnecting = True\<rparr>, nullifier = 1\<rparr>) =
     \<lparr>state = \<lparr>chainId = None, accounts = None, isConnecting = False\<rparr>, nullifier = 1\<rparr>"
proof -
  let ?s1 = "\<lparr>state = \<lparr>chainId = None, accounts = None, isConnecting = True\<rparr>, nullifier = 1\<rparr>"
  let ?s2 = "\<lparr>state = \<lparr>chainId = None, accounts = None, isConnecting = True\<rparr>, nullifier = 2\<rparr>"
  have a: "startConnection createWalletStoreAndActions = (1, ?s1)"
    by (simp add: startConnection_def createWalletStoreAndActions_def DEFAULT_WALLET_STATE_def)
  have b: "startConnection ?s1 = (2, ?s2)"
    by (simp add: startConnection_def)
  have r1: "run (\<lambda>a. True) [ResetState] ?s1 =
              \<lparr>state = \<lparr>chainId = None, accounts = None, isConnecting = False\<rparr>, nullifier = 2\<rparr>"
    by (simp add: run_def resetState_def DEFAULT_WALLET_STATE_def)
  have r2: "run (\<lambda>a. True) [EndConnection 7] ?s1 = ?s1"
    by (simp add: run_def endConnection_def)
  note t = endConnection_clears_iff_no_event_since [OF a]
  from t [of "[]" "\<lambda>a. True" 2 ?s2] b
  have c: "endConnection 1 ?s2 = ?s2 \<and>
           endConnection 2 ?s2 = ?s2\<lparr>state := (state ?s2)\<lparr>isConnecting := False\<rparr>\<rparr>"
    by simp
  from t [of "[ResetState]" "\<lambda>a. True" 2 ?s2]
  have d: "endConnection 1 (run (\<lambda>a. True) [ResetState] ?s1) = run (\<lambda>a. True) [ResetState] ?s1"
    by simp
  from t [of "[EndConnection 7]" "\<lambda>a. True" 2 ?s2]
  have e: "endConnection 1 (run (\<lambda>a. True) [EndConnection 7] ?s1) =
             (run (\<lambda>a. True) [EndConnection 7] ?s1)
               \<lparr>state := (state (run (\<lambda>a. True) [EndConnection 7] ?s1))\<lparr>isConnecting := False\<rparr>\<rparr>"
    by simp
  from a b c d e r1 r2 show ?thesis by simp
qed

section \<open>Updates\<close>

text \<open>
  C10. When an \<open>update\<close> throws, the counter is as it was, because the increment
  comes after both validations: the counter after any \<open>update\<close> is one more exactly
  when the call returned normally. So a closure obtained from \<open>startConnection\<close>
  just before a failed \<open>update\<close> still sets \<open>isConnecting\<close> to false afterwards.
\<close>

theorem failed_update_keeps_token:
  assumes "startConnection s0 = (tok, s1)"
    and "update wellFormed u s1 = (Inl e, s2)"
  shows "nullifier s2 = nullifier s1 \<and>
         endConnection tok s2 = s2\<lparr>state := (state s2)\<lparr>isConnecting := False\<rparr>\<rparr> \<and>
         isConnecting (state s2) \<and>
         nullifier (snd (update wellFormed u' s)) =
           (if fst (update wellFormed u' s) = Inr () then nullifier s + 1 else nullifier s)"
proof -
  from assms(1) have tok: "nullifier s1 = tok" and conn: "isConnecting (state s1)"
    by (auto simp: startConnection_def Let_def)
  from update_result_cases [OF assms(2)] have same: "s2 = s1"
    by auto
  have counter: "nullifier (snd (update wellFormed u' s)) =
           (if fst (update wellFormed u' s) = Inr () then nullifier s + 1 else nullifier s)"
    by (cases "passes wellFormed u'") (simp_all add: update_passes update_fails)
  from tok conn same counter show ?thesis
    by (simp add: endConnection_def)
qed

theorem failed_update_keeps_token_witness:
  "startConnection createWalletStoreAndActions =
     (1, \<lparr>state = \<lparr>chainId = None, accounts = None, isConnecting = True\<rparr>, nullifier = 1\<rparr>) \<and>
   update hexAddress \<lparr>u_chainId = Some 0, u_accounts = None, u_isConnecting = None\<rparr>
     \<lparr>state = \<lparr>chainId = None, accounts = None, isConnecting = True\<rparr>, nullifier = 1\<rparr> =
     (Inl InvalidChainId,
      \<lparr>state = \<lparr>chainId = None, accounts = None, isConnecting = True\<rparr>, nullifier = 1\<rparr>) \<and>
   endConnection 1
     \<lparr>state = \<lparr>chainId = None, accounts = None, isConnecting = True\<rparr>, nullifier = 1\<rparr> =
     \<lparr>state = \<lparr>chainId = None, accounts = None, isConnecting = False\<rparr>, nullifier = 1\<rparr>"
proof -
  let ?s1 = "\<lparr>state = \<lparr>chainId = None, accounts = None, isConnecting = True\<rparr>, nullifier = 1\<rparr>"
  let ?u = "\<lparr>u_chainId = Some 0, u_accounts = None, u_isConnecting = None\<rparr>"
  have a: "startConnection createWalletStoreAndActions = (1, ?s1)"
    by (simp add: startConnection_def createWalletStoreAndActions_def DEFAULT_WALLET_STATE_def)
  have b: "update hexAddress ?u ?s1 = (Inl InvalidChainId, ?s1)"
    by (simp add: update_def validateChainId_def)
  from failed_update_keeps_token [OF a b] a b show ?thesis
    by simp
qed

text \<open>
  C3. Take any store reached from a fresh one by the store's actions, with
  \<open>isConnecting\<close> true, and an \<open>update\<close> that returns. The new chain id and accounts
  are the provided ones where provided and the old ones otherwise; \<open>isConnecting\<close> is
  false after the call if both are defined and still true if either is undefined.
\<close>

theorem update_ends_connecting_when_both_defined:
  assumes "s = run wellFormed acts createWalletStoreAndActions"
    and "isConnecting (state s)"
    and "update wellFormed u s = (Inr (), s')"
  shows "chainId (state s') =
           (case u_chainId u of Some c \<Rightarrow> Some c | None \<Rightarrow> chainId (state s)) \<and>
         accounts (state s') =
           (case u_accounts u of Some a \<Rightarrow> Some a | None \<Rightarrow> accounts (state s)) \<and>
         isConnecting (state s') =
           (chainId (state s') = None \<or> accounts (state s') = None)"
proof -
  from update_result_cases [OF assms(3)] have ok: "passes wellFormed u"
    by auto
  with assms(3) have s': "state s' = mergeState (u_chainId u) (u_accounts u) (state s)"
    by (auto simp: update_passes)
  have "chainIdPositive (state s)"
    unfolding assms(1) by (rule chainIdPositive_reachable)
  moreover from ok have "case u_chainId u of None \<Rightarrow> True | Some k \<Rightarrow> 0 < k"
    by (simp add: passes_def)
  ultimately have nz: "chainId (state s') \<noteq> Some 0"
    unfolding s' by (auto simp: chainIdPositive_def mergeState_def Let_def split: option.splits)
  have tr: "truthyNumber (chainId (state s')) = (chainId (state s') \<noteq> None)"
    using nz by (cases "chainId (state s')") (simp_all add: truthyNumber_def)
  have c: "chainId (state s') =
           (case u_chainId u of Some c \<Rightarrow> Some c | None \<Rightarrow> chainId (state s))"
    unfolding s' by (simp add: mergeState_def Let_def)
  have a: "accounts (state s') =
           (case u_accounts u of Some a \<Rightarrow> Some a | None \<Rightarrow> accounts (state s))"
    unfolding s' by (simp add: mergeState_def Let_def)
  have "isConnecting (state s') =
          (\<not> (truthyNumber (chainId (state s')) \<and> accounts (state s') \<noteq> None))"
    unfolding s' using assms(2) by (simp add: mergeState_def Let_def)
  with tr have i: "isConnecting (state s') =
           (chainId (state s') = None \<or> accounts (state s') = None)"
    by auto
  from c a i show ?thesis by blast
qed

theorem update_ends_connecting_when_both_defined_witness:
  "isConnecting (state (run hexAddress [StartConnection] createWalletStoreAndActions)) \<and>
   update hexAddress
     \<lparr>u_chainId = Some 1,
      u_accounts = Some [''0x52908400098527886E0F7030069857D2E4169EE7''],
      u_isConnecting = None\<rparr>
     (run hexAddress [StartConnection] createWalletStoreAndActions) =
     (Inr (),
      \<lparr>state = \<lparr>chainId = Some 1,
                accounts = Some [''0x52908400098527886E0F7030069857D2E4169EE7''],
                isConnecting = False\<rparr>,
       nullifier = 2\<rparr>) \<and>
   update hexAddress \<lparr>u_chainId = Some 1, u_accounts = None, u_isConnecting = None\<rparr>
     (run hexAddress [StartConnection] createWalletStoreAndActions) =
     (Inr (),
      \<lparr>state = \<lparr>chainId = Some 1, accounts = None, isConnecting = True\<rparr>, nullifier = 2\<rparr>)"
proof -
  let ?s = "run hexAddress [StartConnection] createWalletStoreAndActions"
  let ?u = "\<lparr>u_chainId = Some 1,
      u_accounts = Some [''0x52908400098527886E0F7030069857D2E4169EE7''],
      u_isConnecting = None\<rparr>"
  let ?s' = "\<lparr>state = \<lparr>chainId = Some 1,
                accounts = Some [''0x52908400098527886E0F7030069857D2E4169EE7''],
                isConnecting = False\<rparr>,
       nullifier = 2\<rparr>"
  have s: "?s = \<lparr>state = \<lparr>chainId = None, accounts = None, isConnecting = True\<rparr>, nullifier = 1\<rparr>"
    by (simp add: run_def startConnection_def createWalletStoreAndActions_def
                  DEFAULT_WALLET_STATE_def)
  have c: "isConnecting (state ?s)"
    by (simp add: s)
  have w: "hexAddress ''0x52908400098527886E0F7030069857D2E4169EE7''"
    by (simp add: hexAddress_def hexDigit_def)
  have u: "update hexAddress ?u ?s = (Inr (), ?s')"
    by (simp add: s update_def validateChainId_def validateAccount_def w mergeState_def
                  truthyNumber_def)
  have u2: "update hexAddress \<lparr>u_chainId = Some 1, u_accounts = None, u_isConnecting = None\<rparr> ?s =
     (Inr (),
      \<lparr>state = \<lparr>chainId = Some 1, accounts = None, isConnecting = True\<rparr>, nullifier = 2\<rparr>)"
    by (simp add: s update_def validateChainId_def mergeState_def truthyNumber_def)
  from update_ends_connecting_when_both_defined [OF refl c u] c u u2 show ?thesis
    by simp
qed

text \<open>
  C4. Validation comes before any change to the store. A provided chain id that is
  not positive makes \<open>update\<close> fail with \<open>InvalidChainId\<close>; the chain id is checked
  first, and when it is absent or positive, a provided account that is not well formed
  makes \<open>update\<close> fail with \<open>InvalidAccount\<close>. Whenever \<open>update\<close> fails, the store
  (state and counter) is the one before the call. When every provided field is valid,
  \<open>update\<close> returns and the state read afterwards is the provided fields merged over
  the old state by the reducer: the chain id and the accounts are the provided ones
  where provided and the old ones otherwise, \<open>isConnecting\<close> follows the rule of C3,
  and an \<open>isConnecting\<close> in the argument is not looked at.
\<close>

theorem update_validates_before_mutating:
  "(\<forall>c. u_chainId u = Some c \<and> c \<le> 0 \<longrightarrow>
      update wellFormed u s = (Inl InvalidChainId, s)) \<and>
   (\<forall>as. (case u_chainId u of None \<Rightarrow> True | Some c \<Rightarrow> 0 < c) \<and>
         u_accounts u = Some as \<and> (\<exists>a\<in>set as. \<not> wellFormed a) \<longrightarrow>
      update wellFormed u s = (Inl InvalidAccount, s)) \<and>
   (\<forall>e s'. update wellFormed u s = (Inl e, s') \<longrightarrow> s' = s) \<and>
   ((case u_chainId u of None \<Rightarrow> True | Some c \<Rightarrow> 0 < c) \<and>
    (case u_accounts u of None \<Rightarrow> True | Some as \<Rightarrow> \<forall>a\<in>set as. wellFormed a) \<longrightarrow>
      (\<exists>s'. update wellFormed u s = (Inr (), s') \<and>
            state s' = mergeState (u_chainId u) (u_accounts u) (state s) \<and>
            chainId (state s') =
              (case u_chainId u of Some c \<Rightarrow> Some c | None \<Rightarrow> chainId (state s)) \<and>
            accounts (state s') =
              (case u_accounts u of Some a \<Rightarrow> Some a | None \<Rightarrow> accounts (state s))))"
proof -
  have one: "\<forall>c. u_chainId u = Some c \<and> c \<le> 0 \<longrightarrow>
      update wellFormed u s = (Inl InvalidChainId, s)"
    by (auto simp: update_def validateChainId_def)
  have two: "\<forall>as. (case u_chainId u of None \<Rightarrow> True | Some c \<Rightarrow> 0 < c) \<and>
         u_accounts u = Some as \<and> (\<exists>a\<in>set as. \<not> wellFormed a) \<longrightarrow>
      update wellFormed u s = (Inl InvalidAccount, s)"
  proof (intro allI impI)
    fix as
    assume h: "(case u_chainId u of None \<Rightarrow> True | Some c \<Rightarrow> 0 < c) \<and>
         u_accounts u = Some as \<and> (\<exists>a\<in>set as. \<not> wellFormed a)"
    then have "\<not> passes wellFormed u"
      by (auto simp: passes_def list_all_iff)
    from update_fails [OF this] h show "update wellFormed u s = (Inl InvalidAccount, s)"
      by (auto split: option.splits)
  qed
  have three: "\<forall>e s'. update wellFormed u s = (Inl e, s') \<longrightarrow> s' = s"
    using update_result_cases by blast
  have four: "(case u_chainId u of None \<Rightarrow> True | Some c \<Rightarrow> 0 < c) \<and>
    (case u_accounts u of None \<Rightarrow> True | Some as \<Rightarrow> \<forall>a\<in>set as. wellFormed a) \<longrightarrow>
      (\<exists>s'. update wellFormed u s = (Inr (), s') \<and>
            state s' = mergeState (u_chainId u) (u_accounts u) (state s) \<and>
            chainId (state s') =
              (case u_chainId u of Some c \<Rightarrow> Some c | None \<Rightarrow> chainId (state s)) \<and>
            accounts (state s') =
              (case u_accounts u of Some a \<Rightarrow> Some a | None \<Rightarrow> accounts (state s)))"
  proof
    assume h: "(case u_chainId u of None \<Rightarrow> True | Some c \<Rightarrow> 0 < c) \<and>
      (case u_accounts u of None \<Rightarrow> True | Some as \<Rightarrow> \<forall>a\<in>set as. wellFormed a)"
    then have "passes wellFormed u"
      by (auto simp: passes_def list_all_iff split: option.splits)
    from update_passes [OF this, of s]
    show "\<exists>s'. update wellFormed u s = (Inr (), s') \<and>
            state s' = mergeState (u_chainId u) (u_accounts u) (state s) \<and>
            chainId (state s') =
              (case u_chainId u of Some c \<Rightarrow> Some c | None \<Rightarrow> chainId (state s)) \<and>
            accounts (state s') =
              (case u_accounts u of Some a \<Rightarrow> Some a | None \<Rightarrow> accounts (state s))"
      by (simp add: mergeState_def Let_def)
  qed
  from one two three four show ?thesis by blast
qed

theorem update_validates_before_mutating_witness:
  "update hexAddress \<lparr>u_chainId = Some (- 5), u_accounts = None, u_isConnecting = None\<rparr>
     \<lparr>state = \<lparr>chainId = Some 1, accounts = None, isConnecting = True\<rparr>, nullifier = 3\<rparr> =
     (Inl InvalidChainId,
      \<lparr>state = \<lparr>chainId = Some 1, accounts = None, isConnecting = True\<rparr>, nullifier = 3\<rparr>) \<and>
   update hexAddress \<lparr>u_chainId = Some 5, u_accounts = Some [''0x12''], u_isConnecting = None\<rparr>
     \<lparr>state = \<lparr>chainId = Some 1, accounts = None, isConnecting = True\<rparr>, nullifier = 3\<rparr> =
     (Inl InvalidAccount,
      \<lparr>state = \<lparr>chainId = Some 1, accounts = None, isConnecting = True\<rparr>, nullifier = 3\<rparr>) \<and>
   (\<exists>s'. update hexAddress \<lparr>u_chainId = Some 5, u_accounts = None, u_isConnecting = None\<rparr>
           \<lparr>state = \<lparr>chainId = Some 1, accounts = Some [], isConnecting = False\<rparr>,
            nullifier = 3\<rparr> = (Inr (), s') \<and>
         chainId (state s') = Some 5 \<and> accounts (state s') = Some [])"
proof -
  let ?s = "\<lparr>state = \<lparr>chainId = Some 1, accounts = None, isConnecting = True\<rparr>, nullifier = 3\<rparr>"
  let ?t = "\<lparr>state = \<lparr>chainId = Some 1, accounts = Some [], isConnecting = False\<rparr>,
            nullifier = 3\<rparr>"
  have bad: "\<not> hexAddress ''0x12''"
    by (simp add: hexAddress_def)
  from update_validates_before_mutating
         [of "\<lparr>u_chainId = Some (- 5), u_accounts = None, u_isConnecting = None\<rparr>" hexAddress ?s]
  have a: "update hexAddress \<lparr>u_chainId = Some (- 5), u_accounts = None, u_isConnecting = None\<rparr> ?s =
             (Inl InvalidChainId, ?s)"
    by simp
  from update_validates_before_mutating
         [of "\<lparr>u_chainId = Some 5, u_accounts = Some [''0x12''], u_isConnecting = None\<rparr>"
             hexAddress ?s] bad
  have b: "update hexAddress
             \<lparr>u_chainId = Some 5, u_accounts = Some [''0x12''], u_isConnecting = None\<rparr> ?s =
             (Inl InvalidAccount, ?s)"
    by simp
  from update_validates_before_mutating
         [of "\<lparr>u_chainId = Some 5, u_accounts = None, u_isConnecting = None\<rparr>" hexAddress ?t]
  have c: "\<exists>s'. update hexAddress \<lparr>u_chainId = Some 5, u_accounts = None, u_isConnecting = None\<rparr> ?t =
                  (Inr (), s') \<and>
                chainId (state s') = Some 5 \<and> accounts (state s') = Some []"
    by auto
  from a b c show ?thesis by blast
qed

section \<open>Facts about the proxy\<close>

lemma useCurrentWallet_memoFrom:
  assumes "memoFrom ws memo"
  shows "fst (useCurrentWallet ws memo s) = walletFor ws (currentWallet (useStore s)) \<and>
         memoFrom ws (fst (snd (useCurrentWallet ws memo s)))"
  using assms
  by (auto simp: useCurrentWallet_def useMemo_def Let_def memoFrom_def walletFor_def
           split: option.splits prod.splits if_splits)

lemma setCurrentWallet_twice:
  "setCurrentWallet a (setCurrentWallet b s) = setCurrentWallet a s"
  by (simp add: setCurrentWallet_def)

lemma find_absent:
  "\<forall>w\<in>set ws. name w \<noteq> n \<Longrightarrow> find (\<lambda>w. name w = n) ws = None"
  by (simp add: find_None_iff)

lemma recordedFor_Cons:
  "recordedFor cur ((n, v) # recorded) =
     (case recordedFor cur recorded of
        Some x \<Rightarrow> Some x
      | None \<Rightarrow> if Some n = cur then Some v else None)"
  by (auto simp: recordedFor_def map_add_def split: option.splits)

lemma callHooks_invokeEach:
  "map (\<lambda>w. map_of (hooks w) hookName) ws = map Some fns \<Longrightarrow>
   callHooks ws hookName cur args out s =
     (case invokeEach (zip (map name ws) fns) args s of
        (recorded, s') \<Rightarrow>
          (Inr (case recordedFor cur recorded of None \<Rightarrow> out | Some v \<Rightarrow> Some v), s'))"
proof (induction ws arbitrary: fns out s)
  case Nil
  then show ?case by (simp add: recordedFor_def split: option.splits)
next
  case (Cons w ws)
  from Cons.prems obtain f fs where fns: "fns = f # fs"
    and f: "map_of (hooks w) hookName = Some f"
    and fs: "map (\<lambda>w. map_of (hooks w) hookName) ws = map Some fs"
    by (cases fns) auto
  show ?case
    by (simp add: fns f Cons.IH [OF fs] recordedFor_Cons split: prod.splits option.splits)
qed

lemma invokeEach_names:
  "invokeEach pairs args s = (recorded, s') \<Longrightarrow> map fst recorded = map fst pairs"
  by (induction pairs arbitrary: s recorded s') (auto split: prod.splits)

lemma map_of_tabulate:
  "map_of (map (\<lambda>k. (k, f k)) ks) h = (if h \<in> set ks then Some (f h) else None)"
  by (induction ks) simp_all

lemma getCombinedHooks_lookup:
  "map_of (getCombinedHooks ws) h =
     (if h \<in> fst ` set (hooks (hd ws)) then Some (combinedHook ws h) else None)"
  by (simp add: getCombinedHooks_def map_of_tabulate)

lemma recordedFor_distinct:
  "distinct (map fst recorded) \<Longrightarrow> (n, v) \<in> set recorded \<Longrightarrow>
   recordedFor (Some n) recorded = Some v"
  by (simp add: recordedFor_def distinct_rev rev_map [symmetric])

lemma recordedFor_absent:
  "n \<notin> fst ` set recorded \<Longrightarrow> recordedFor (Some n) recorded = None"
  by (simp add: recordedFor_def map_of_eq_None_iff)

section \<open>Construction\<close>

text \<open>
  C9, as amended. With no wallets \<open>createWalletProxy\<close> throws and no proxy is built.
  With at least one it builds a proxy over them whose store is created without a
  \<open>connectionId\<close> and with \<open>currentWallet\<close> the \<open>defaultCurrentWallet\<close> option when that
  is given and is not the empty string, and the first wallet's name otherwise. The
  proxy starts in that state when nothing is saved under its persist key. When a
  record of version 0 is saved there, the proxy starts with the saved \<open>connectionId\<close>,
  and with the saved \<open>currentWallet\<close> if the record has one.
\<close>

theorem createWalletProxy_initial:
  "(ws = [] \<longrightarrow> createWalletProxy ws options storage = Inl EmptyWalletSet) \<and>
   (ws \<noteq> [] \<longrightarrow>
      (\<exists>p. createWalletProxy ws options storage = Inr p \<and> wallets p = ws \<and>
           persistKey p = (case key options of None \<Rightarrow> ''@web3-wallet'' | Some k \<Rightarrow> k) \<and>
           (storage (persistKey p) = None \<longrightarrow>
              connectionId (initialState p) = None \<and>
              currentWallet (initialState p) =
                Some (case defaultCurrentWallet options of
                        None \<Rightarrow> name (hd ws)
                      | Some d \<Rightarrow> if d = '''' then name (hd ws) else d)) \<and>
           (\<forall>saved. storage (persistKey p) =
                      Some \<lparr>saved_state = saved, saved_version = Some 0\<rparr> \<longrightarrow>
              connectionId (initialState p) = connectionId saved \<and>
              currentWallet (initialState p) =
                (case currentWallet saved of
                   Some n \<Rightarrow> Some n
                 | None \<Rightarrow>
                     Some (case defaultCurrentWallet options of
                             None \<Rightarrow> name (hd ws)
                           | Some d \<Rightarrow> if d = '''' then name (hd ws) else d)))))"
proof (cases "ws = []")
  case True
  then show ?thesis
    by (simp add: createWalletProxy_def)
next
  case False
  let ?key = "case key options of None \<Rightarrow> ''@web3-wallet'' | Some k \<Rightarrow> k"
  let ?created = "\<lparr>currentWallet =
                Some (case defaultCurrentWallet options of
                        None \<Rightarrow> name (hd ws)
                      | Some d \<Rightarrow> if d = '''' then name (hd ws) else d),
              connectionId = None\<rparr>"
  from False have "length ws \<noteq> 0"
    by simp
  then have made: "createWalletProxy ws options storage =
      Inr \<lparr>wallets = ws, persistKey = ?key, initialState = hydrate (storage ?key) ?created\<rparr>"
    by (simp add: createWalletProxy_def Let_def)
  from False made show ?thesis
    by (auto simp: hydrate_def split: option.splits)
qed

theorem createWalletProxy_initial_witness:
  "createWalletProxy ([] :: (unit, string, bool, nat, string list system) Wallet list)
     \<lparr>defaultCurrentWallet = Some ''B'', key = None\<rparr> emptyStorage = Inl EmptyWalletSet \<and>
   (\<exists>p. createWalletProxy [demoWallet ''A'' 1, demoWallet ''B'' 2]
           \<lparr>defaultCurrentWallet = Some ''B'', key = None\<rparr> emptyStorage = Inr p \<and>
        currentWallet (initialState p) = Some ''B'' \<and> connectionId (initialState p) = None) \<and>
   (\<exists>p. createWalletProxy [demoWallet ''A'' 1, demoWallet ''B'' 2]
           \<lparr>defaultCurrentWallet = None, key = None\<rparr> emptyStorage = Inr p \<and>
        currentWallet (initialState p) = Some ''A'' \<and> connectionId (initialState p) = None) \<and>
   (\<exists>p. createWalletProxy [demoWallet ''A'' 1, demoWallet ''B'' 2]
           \<lparr>defaultCurrentWallet = None, key = None\<rparr> savedStorage = Inr p \<and>
        currentWallet (initialState p) = Some ''B'' \<and> connectionId (initialState p) = Some 7)"
proof -
  let ?ws = "[demoWallet ''A'' 1, demoWallet ''B'' 2]"
  have n: "?ws \<noteq> []" by simp
  have h: "name (hd ?ws) = ''A''" by (simp add: demoWallet_def)
  have e: "emptyStorage ''@web3-wallet'' = None"
    by (simp add: emptyStorage_def)
  have s: "savedStorage ''@web3-wallet'' =
             Some \<lparr>saved_state = \<lparr>currentWallet = Some ''B'', connectionId = Some 7\<rparr>,
                   saved_version = Some 0\<rparr>"
    by (simp add: savedStorage_def)
  from createWalletProxy_initial
         [where ws = ?ws and options = "\<lparr>defaultCurrentWallet = Some ''B'', key = None\<rparr>"
            and storage = emptyStorage] n e
  have a: "\<exists>p. createWalletProxy ?ws \<lparr>defaultCurrentWallet = Some ''B'', key = None\<rparr>
                  emptyStorage = Inr p \<and>
        currentWallet (initialState p) = Some ''B'' \<and> connectionId (initialState p) = None"
    by auto
  from createWalletProxy_initial
         [where ws = ?ws and options = "\<lparr>defaultCurrentWallet = None, key = None\<rparr>"
            and storage = emptyStorage] n h e
  have b: "\<exists>p. createWalletProxy ?ws \<lparr>defaultCurrentWallet = None, key = None\<rparr>
                  emptyStorage = Inr p \<and>
        currentWallet (initialState p) = Some ''A'' \<and> connectionId (initialState p) = None"
    by auto
  from createWalletProxy_initial
         [where ws = ?ws and options = "\<lparr>defaultCurrentWallet = None, key = None\<rparr>"
            and storage = savedStorage] n s
  have d: "\<exists>p. createWalletProxy ?ws \<lparr>defaultCurrentWallet = None, key = None\<rparr>
                  savedStorage = Inr p \<and>
        currentWallet (initialState p) = Some ''B'' \<and> connectionId (initialState p) = Some 7"
    by auto
  from createWalletProxy_initial
         [where ws = "[] :: (unit, string, bool, nat, string list system) Wallet list"
            and options = "\<lparr>defaultCurrentWallet = Some ''B'', key = None\<rparr>"
            and storage = emptyStorage]
  have c: "createWalletProxy ([] :: (unit, string, bool, nat, string list system) Wallet list)
     \<lparr>defaultCurrentWallet = Some ''B'', key = None\<rparr> emptyStorage = Inl EmptyWalletSet"
    by simp
  from a b c d show ?thesis by blast
qed

text \<open>
  The claim as it stands gives \<open>currentWallet\<close> the option whenever it is given, and the
  first wallet's name otherwise. Given as the empty string, with nothing saved, \<open>||\<close>
  passes the option over and the proxy starts on the first wallet \<open>A\<close>. Not given, with
  \<open>{currentWallet: B, connectionId: 7}\<close> saved under the key, the proxy starts on \<open>B\<close>
  with \<open>connectionId\<close> 7, not on the first wallet.
\<close>

theorem createWalletProxy_initial_counterexample:
  "createWalletProxy [demoWallet ''A'' 1, demoWallet ''B'' 2]
     \<lparr>defaultCurrentWallet = Some '''', key = None\<rparr> emptyStorage =
   Inr \<lparr>wallets = [demoWallet ''A'' 1, demoWallet ''B'' 2],
        persistKey = ''@web3-wallet'',
        initialState = \<lparr>currentWallet = Some ''A'', connectionId = None\<rparr>\<rparr> \<and>
   createWalletProxy [demoWallet ''A'' 1, demoWallet ''B'' 2]
     \<lparr>defaultCurrentWallet = None, key = None\<rparr> savedStorage =
   Inr \<lparr>wallets = [demoWallet ''A'' 1, demoWallet ''B'' 2],
        persistKey = ''@web3-wallet'',
        initialState = \<lparr>currentWallet = Some ''B'', connectionId = Some 7\<rparr>\<rparr>"
  by (simp add: createWalletProxy_def hydrate_def emptyStorage_def savedStorage_def
                demoWallet_def)

section \<open>The current wallet\<close>

lemma useCurrentWallet_miss_repairs:
  assumes "ws \<noteq> []"
    and "\<forall>w\<in>set ws. name w \<noteq> n"
    and "memoFrom ws memo"
  shows "fst (useCurrentWallet ws memo (setCurrentWallet n s)) = hd ws \<and>
         hd ws \<in> set ws \<and>
         (memo = None \<or> (\<exists>dep cached. memo = Some (dep, cached) \<and> dep \<noteq> Some n) \<longrightarrow>
            snd (snd (useCurrentWallet ws memo (setCurrentWallet n s))) =
              setCurrentWallet (name (hd ws)) s)"
proof -
  have cur: "currentWallet (useStore (setCurrentWallet n s)) = Some n"
    by (simp add: setCurrentWallet_def)
  have nf: "find (\<lambda>w. name w = n) ws = None"
    using assms(2) by (rule find_absent)
  have wf: "walletFor ws (Some n) = hd ws"
    by (simp add: walletFor_def nf)
  have a: "fst (useCurrentWallet ws memo (setCurrentWallet n s)) = hd ws"
    using assms(3) nf
    by (auto simp: useCurrentWallet_def useMemo_def Let_def cur memoFrom_def wf
             split: option.splits prod.splits)
  have b: "hd ws \<in> set ws"
    using assms(1) by simp
  have c: "memo = None \<or> (\<exists>dep cached. memo = Some (dep, cached) \<and> dep \<noteq> Some n) \<longrightarrow>
            snd (snd (useCurrentWallet ws memo (setCurrentWallet n s))) =
              setCurrentWallet (name (hd ws)) s"
    using nf
    by (auto simp: useCurrentWallet_def useMemo_def Let_def cur setCurrentWallet_twice)
  from a b c show ?thesis by blast
qed

text \<open>
  C5 asks that, for a name \<open>n\<close> of no registered wallet, every read of the current
  wallet after \<open>setCurrentWallet n\<close> returns the first registered wallet and writes its
  name back into the store. The callback of \<open>useCurrentWallet\<close> does both
  (\<open>useCurrentWallet_miss_repairs\<close>: whenever it runs), but it sits inside \<open>useMemo\<close>,
  keyed on the name, and a read that meets the name of the component's previous read
  does not run it. The run below is of one component over the wallets \<open>A\<close>, \<open>B\<close>. The
  first read meets \<open>ghost\<close>, returns \<open>A\<close>, writes \<open>A\<close> into the store and fills the memo
  cell for \<open>ghost\<close>. \<open>ghost\<close> is selected again before the component renders anew. The
  second read returns \<open>A\<close> from the cell and leaves \<open>ghost\<close> in the store, where C5
  has \<open>A\<close> written back. With \<open>ghost\<close> left there, the combined \<open>useAccounts\<close> calls
  both wallets' hooks and returns \<open>undefined\<close>.
\<close>

theorem useCurrentWallet_memo_hit_skips_repair:
  "useCurrentWallet [demoWallet ''A'' 1, demoWallet ''B'' 2] None
     (setCurrentWallet ''ghost'' (demoSystem (Some ''B'') None)) =
     (demoWallet ''A'' 1, Some (Some ''ghost'', demoWallet ''A'' 1),
      demoSystem (Some ''A'') None) \<and>
   useCurrentWallet [demoWallet ''A'' 1, demoWallet ''B'' 2]
     (Some (Some ''ghost'', demoWallet ''A'' 1))
     (setCurrentWallet ''ghost'' (demoSystem (Some ''A'') None)) =
     (demoWallet ''A'' 1, Some (Some ''ghost'', demoWallet ''A'' 1),
      demoSystem (Some ''ghost'') None) \<and>
   combinedHook [demoWallet ''A'' 1, demoWallet ''B'' 2] ''useAccounts'' ()
     (demoSystem (Some ''ghost'') None) =
     (Inr None,
      \<lparr>useStore = \<lparr>currentWallet = Some ''ghost'', connectionId = None\<rparr>,
       world = [''A.useAccounts'', ''B.useAccounts'']\<rparr>)"
proof -
  have first: "useCurrentWallet [demoWallet ''A'' 1, demoWallet ''B'' 2] None
     (setCurrentWallet ''ghost'' (demoSystem (Some ''B'') None)) =
     (demoWallet ''A'' 1, Some (Some ''ghost'', demoWallet ''A'' 1),
      demoSystem (Some ''A'') None)"
    by (simp add: useCurrentWallet_def useMemo_def setCurrentWallet_def demoSystem_def
                  demoWallet_def Let_def)
  have second: "useCurrentWallet [demoWallet ''A'' 1, demoWallet ''B'' 2]
     (Some (Some ''ghost'', demoWallet ''A'' 1))
     (setCurrentWallet ''ghost'' (demoSystem (Some ''A'') None)) =
     (demoWallet ''A'' 1, Some (Some ''ghost'', demoWallet ''A'' 1),
      demoSystem (Some ''ghost'') None)"
    by (simp add: useCurrentWallet_def useMemo_def setCurrentWallet_def demoSystem_def
                  demoWallet_def Let_def)
  have hooks: "combinedHook [demoWallet ''A'' 1, demoWallet ''B'' 2] ''useAccounts'' ()
     (demoSystem (Some ''ghost'') None) =
     (Inr None,
      \<lparr>useStore = \<lparr>currentWallet = Some ''ghost'', connectionId = None\<rparr>,
       world = [''A.useAccounts'', ''B.useAccounts'']\<rparr>)"
    by (simp add: combinedHook_def demoWallet_def demoHooks_def demoSystem_def logCall_def)
  from first second hooks show ?thesis
    by simp
qed

section \<open>Combined hooks\<close>

text \<open>
  C2. Let \<open>hookName\<close> be a hook of wallet 0 and let every registered wallet have a hook
  of that name, \<open>fns\<close> in registration order (the registered set's invariant). Then
  the combinator has a merged hook under that name, and calling it is \<open>invokeEach\<close>:
  each wallet's hook is invoked once, in registration order, with the given arguments,
  each on the state the one before left. The names recorded are the wallets' names in
  order. The merged hook returns the value recorded for the \<open>currentWallet\<close> that the
  store held when the call began: with unique names that is the value returned by the
  wallet of that name, and it is \<open>undefined\<close> when no wallet has that name.
\<close>

theorem combined_hook_calls_every_wallet:
  assumes "ws \<noteq> []"
    and "hookName \<in> fst ` set (hooks (hd ws))"
    and "map (\<lambda>w. map_of (hooks w) hookName) ws = map Some fns"
  shows "\<exists>merged. map_of (getCombinedHooks ws) hookName = Some merged \<and>
           (\<forall>args s. \<exists>recorded s'.
              invokeEach (zip (map name ws) fns) args s = (recorded, s') \<and>
              map fst recorded = map name ws \<and>
              merged args s = (Inr (recordedFor (currentWallet (useStore s)) recorded), s') \<and>
              (\<forall>n v. distinct (map name ws) \<and> currentWallet (useStore s) = Some n \<and>
                     (n, v) \<in> set recorded \<longrightarrow>
                 fst (merged args s) = Inr (Some v)) \<and>
              ((\<forall>w\<in>set ws. Some (name w) \<noteq> currentWallet (useStore s)) \<longrightarrow>
                 fst (merged args s) = Inr None))"
proof -
  have lookup: "map_of (getCombinedHooks ws) hookName = Some (combinedHook ws hookName)"
    using assms(2) by (simp add: getCombinedHooks_lookup)
  have body: "\<exists>recorded s'.
              invokeEach (zip (map name ws) fns) args s = (recorded, s') \<and>
              map fst recorded = map name ws \<and>
              combinedHook ws hookName args s =
                (Inr (recordedFor (currentWallet (useStore s)) recorded), s') \<and>
              (\<forall>n v. distinct (map name ws) \<and> currentWallet (useStore s) = Some n \<and>
                     (n, v) \<in> set recorded \<longrightarrow>
                 fst (combinedHook ws hookName args s) = Inr (Some v)) \<and>
              ((\<forall>w\<in>set ws. Some (name w) \<noteq> currentWallet (useStore s)) \<longrightarrow>
                 fst (combinedHook ws hookName args s) = Inr None)" for args s
  proof -
  obtain recorded s' where inv: "invokeEach (zip (map name ws) fns) args s = (recorded, s')"
    by (cases "invokeEach (zip (map name ws) fns) args s")
  from assms(3) have len: "length fns = length ws"
    by (metis length_map)
  have names: "map fst recorded = map name ws"
    using invokeEach_names [OF inv] len by simp
  have res: "combinedHook ws hookName args s =
               (Inr (recordedFor (currentWallet (useStore s)) recorded), s')"
    by (simp add: combinedHook_def Let_def callHooks_invokeEach [OF assms(3)] inv
             split: option.splits)
  have uniq: "\<forall>n v. distinct (map name ws) \<and> currentWallet (useStore s) = Some n \<and>
                     (n, v) \<in> set recorded \<longrightarrow>
                 fst (combinedHook ws hookName args s) = Inr (Some v)"
    using names by (auto simp: res recordedFor_distinct)
  have none: "(\<forall>w\<in>set ws. Some (name w) \<noteq> currentWallet (useStore s)) \<longrightarrow>
                 fst (combinedHook ws hookName args s) = Inr None"
  proof
    assume h: "\<forall>w\<in>set ws. Some (name w) \<noteq> currentWallet (useStore s)"
    show "fst (combinedHook ws hookName args s) = Inr None"
    proof (cases "currentWallet (useStore s)")
      case None
      then show ?thesis by (simp add: res recordedFor_def)
    next
      case (Some n)
      with h have "n \<notin> set (map name ws)" by auto
      then have "n \<notin> fst ` set recorded"
        using names by (metis set_map)
      then show ?thesis by (simp add: res Some recordedFor_absent)
    qed
  qed
  from inv names res uniq none show ?thesis
    by blast
  qed
  from lookup body show ?thesis
    by blast
qed

theorem combined_hook_calls_every_wallet_witness:
  "map_of (getCombinedHooks [demoWallet ''A'' 1, demoWallet ''B'' 2, demoWallet ''C'' 3])
     ''useAccounts'' =
     Some (combinedHook [demoWallet ''A'' 1, demoWallet ''B'' 2, demoWallet ''C'' 3]
             ''useAccounts'') \<and>
   combinedHook [demoWallet ''A'' 1, demoWallet ''B'' 2, demoWallet ''C'' 3] ''useAccounts'' ()
     (demoSystem (Some ''B'') None) =
     (Inr (Some 2),
      \<lparr>useStore = \<lparr>currentWallet = Some ''B'', connectionId = None\<rparr>,
       world = [''A.useAccounts'', ''B.useAccounts'', ''C.useAccounts'']\<rparr>)"
proof -
  let ?ws = "[demoWallet ''A'' 1, demoWallet ''B'' 2, demoWallet ''C'' 3]"
  let ?fns = "[\<lambda>args s. (1::nat, logCall ''A.useAccounts'' s),
               \<lambda>args s. (2::nat, logCall ''B.useAccounts'' s),
               \<lambda>args s. (3::nat, logCall ''C.useAccounts'' s)]"
  have h: "''useAccounts'' \<in> fst ` set (hooks (hd ?ws))"
    by (simp add: demoWallet_def demoHooks_def)
  have f: "map (\<lambda>w. map_of (hooks w) ''useAccounts'') ?ws = map Some ?fns"
    by (simp add: demoWallet_def demoHooks_def)
  have i: "invokeEach (zip (map name ?ws) ?fns) () (demoSystem (Some ''B'') None) =
             ([(''A'', 1), (''B'', 2), (''C'', 3)],
              \<lparr>useStore = \<lparr>currentWallet = Some ''B'', connectionId = None\<rparr>,
               world = [''A.useAccounts'', ''B.useAccounts'', ''C.useAccounts'']\<rparr>)"
    by (simp add: demoWallet_def demoSystem_def logCall_def)
  have c: "currentWallet (useStore (demoSystem (Some ''B'') None)) = Some ''B''"
    by (simp add: demoSystem_def)
  have r: "recordedFor (Some ''B'') [(''A'', 1::nat), (''B'', 2), (''C'', 3)] = Some 2"
    by (simp add: recordedFor_def)
  have n: "?ws \<noteq> []" by simp
  from combined_hook_calls_every_wallet [OF n h f]
  obtain merged where m: "map_of (getCombinedHooks ?ws) ''useAccounts'' = Some merged"
    and b: "\<And>args s. \<exists>recorded s'.
              invokeEach (zip (map name ?ws) ?fns) args s = (recorded, s') \<and>
              merged args s = (Inr (recordedFor (currentWallet (useStore s)) recorded), s')"
    by blast
  have l: "map_of (getCombinedHooks ?ws) ''useAccounts'' = Some (combinedHook ?ws ''useAccounts'')"
    by (simp add: getCombinedHooks_def demoWallet_def demoHooks_def)
  with m have e: "merged = combinedHook ?ws ''useAccounts''"
    by simp
  from b [of "()" "demoSystem (Some ''B'') None"] i c r
  have "merged () (demoSystem (Some ''B'') None) =
     (Inr (Some 2),
      \<lparr>useStore = \<lparr>currentWallet = Some ''B'', connectionId = None\<rparr>,
       world = [''A.useAccounts'', ''B.useAccounts'', ''C.useAccounts'']\<rparr>)"
    by auto
  with e l show ?thesis by simp
qed

section \<open>The connector wrappers\<close>

text \<open>
  C8. The function \<open>useAutoConnect\<close> returns calls \<open>autoConnect\<close> on the connector of
  the wallet \<open>useCurrentWallet\<close> gave it. Whenever that call returns, with whatever
  value, \<open>false\<close> included, the function sets \<open>connectionId\<close> to the timestamp and
  returns the same value. The wallet is the one the stored name stands for.
\<close>

theorem autoConnect_marks_attempt:
  assumes "useAutoConnect ws memo s0 = (autoConnectFn, memo', s0')"
    and "autoConnect (connector (fst (useCurrentWallet ws memo s0))) args s = (Inr result, s')"
  shows "autoConnectFn args now s =
           (Inr result, s'\<lparr>useStore := (useStore s')\<lparr>connectionId := Some now\<rparr>\<rparr>) \<and>
         useConnectionId (snd (autoConnectFn args now s)) = Some now \<and>
         (memoFrom ws memo \<longrightarrow>
            fst (useCurrentWallet ws memo s0) = walletFor ws (currentWallet (useStore s0)))"
proof -
  from assms(1) have f: "autoConnectFn = useAutoConnect_autoConnect (fst (useCurrentWallet ws memo s0))"
    by (auto simp: useAutoConnect_def split: prod.splits)
  have r: "autoConnectFn args now s =
           (Inr result, s'\<lparr>useStore := (useStore s')\<lparr>connectionId := Some now\<rparr>\<rparr>)"
    unfolding f using assms(2) by (simp add: useAutoConnect_autoConnect_def)
  then have c: "useConnectionId (snd (autoConnectFn args now s)) = Some now"
    by (simp add: useConnectionId_def)
  from r c useCurrentWallet_memoFrom [of ws memo s0] show ?thesis
    by blast
qed

theorem autoConnect_marks_attempt_witness:
  "useAutoConnect [demoWallet ''A'' 1, demoWallet ''B'' 2] None (demoSystem (Some ''B'') None) =
     (useAutoConnect_autoConnect (demoWallet ''B'' 2), Some (Some ''B'', demoWallet ''B'' 2),
      demoSystem (Some ''B'') None) \<and>
   useAutoConnect_autoConnect (demoWallet ''B'' 2) () 1700000000000
     (demoSystem (Some ''B'') None) =
     (Inr False, \<lparr>useStore = \<lparr>currentWallet = Some ''B'', connectionId = Some 1700000000000\<rparr>,
                 world = [''B.autoConnect'']\<rparr>)"
proof -
  let ?ws = "[demoWallet ''A'' 1, demoWallet ''B'' 2]"
  let ?s0 = "demoSystem (Some ''B'') None"
  have u: "useAutoConnect ?ws None ?s0 =
     (useAutoConnect_autoConnect (demoWallet ''B'' 2), Some (Some ''B'', demoWallet ''B'' 2), ?s0)"
    by (simp add: useAutoConnect_def useCurrentWallet_def useMemo_def Let_def demoSystem_def
                  demoWallet_def)
  have w: "fst (useCurrentWallet ?ws None ?s0) = demoWallet ''B'' 2"
    by (simp add: useCurrentWallet_def useMemo_def Let_def demoSystem_def demoWallet_def)
  have d: "autoConnect (connector (fst (useCurrentWallet ?ws None ?s0))) () ?s0 =
     (Inr False, \<lparr>useStore = \<lparr>currentWallet = Some ''B'', connectionId = None\<rparr>,
                 world = [''B.autoConnect'']\<rparr>)"
    unfolding w by (simp add: demoWallet_def demoConnector_def demoSystem_def logCall_def)
  from autoConnect_marks_attempt [OF u d, of 1700000000000] u show ?thesis
    by simp
qed

text \<open>
  C7, as amended. The function \<open>useAutoConnectOnce\<close> returns tests \<open>!connectionId\<close>.
  When \<open>connectionId\<close> is unset, or is 0, it returns \<open>false\<close> and the system is as
  before: the connector is not called. When \<open>connectionId\<close> is set and not 0, the call
  is the connector's \<open>autoConnectOnce\<close>: same result, and no change to the store beyond
  what the connector makes.
\<close>

theorem autoConnectOnce_guarded:
  assumes "useAutoConnectOnce ws memo s0 = (autoConnectOnceFn, memo', s0')"
  shows "(connectionId (useStore s) = None \<or> connectionId (useStore s) = Some 0 \<longrightarrow>
            autoConnectOnceFn args s = (Inr False, s)) \<and>
         (\<forall>c. connectionId (useStore s) = Some c \<and> c \<noteq> 0 \<longrightarrow>
            autoConnectOnceFn args s =
              autoConnectOnce (connector (fst (useCurrentWallet ws memo s0))) args s)"
proof -
  from assms have f: "autoConnectOnceFn =
      useAutoConnectOnce_autoConnectOnce (fst (useCurrentWallet ws memo s0))"
    by (auto simp: useAutoConnectOnce_def split: prod.splits)
  show ?thesis
    unfolding f by (auto simp: useAutoConnectOnce_autoConnectOnce_def truthyNumber_def Let_def)
qed

theorem autoConnectOnce_guarded_witness:
  "useAutoConnectOnce_autoConnectOnce (demoWallet ''B'' 2) () (demoSystem (Some ''B'') None) =
     (Inr False, demoSystem (Some ''B'') None) \<and>
   useAutoConnectOnce_autoConnectOnce (demoWallet ''B'' 2) ()
     (demoSystem (Some ''B'') (Some 1700000000000)) =
     (Inr True, \<lparr>useStore = \<lparr>currentWallet = Some ''B'', connectionId = Some 1700000000000\<rparr>,
                world = [''B.autoConnectOnce'']\<rparr>)"
proof -
  let ?ws = "[demoWallet ''A'' 1, demoWallet ''B'' 2]"
  let ?s0 = "demoSystem (Some ''B'') None"
  let ?s1 = "demoSystem (Some ''B'') (Some 1700000000000)"
  have u: "useAutoConnectOnce ?ws None ?s0 =
     (useAutoConnectOnce_autoConnectOnce (demoWallet ''B'' 2),
      Some (Some ''B'', demoWallet ''B'' 2), ?s0)"
    by (simp add: useAutoConnectOnce_def useCurrentWallet_def useMemo_def Let_def demoSystem_def
                  demoWallet_def)
  have w: "fst (useCurrentWallet ?ws None ?s0) = demoWallet ''B'' 2"
    by (simp add: useCurrentWallet_def useMemo_def Let_def demoSystem_def demoWallet_def)
  have n: "connectionId (useStore ?s0) = None"
    by (simp add: demoSystem_def)
  have c: "connectionId (useStore ?s1) = Some 1700000000000"
    by (simp add: demoSystem_def)
  have d: "autoConnectOnce (connector (demoWallet ''B'' 2)) () ?s1 =
     (Inr True, \<lparr>useStore = \<lparr>currentWallet = Some ''B'', connectionId = Some 1700000000000\<rparr>,
                world = [''B.autoConnectOnce'']\<rparr>)"
    by (simp add: demoWallet_def demoConnector_def demoSystem_def logCall_def)
  from autoConnectOnce_guarded [OF u, of ?s0 "()"] n
  have a: "useAutoConnectOnce_autoConnectOnce (demoWallet ''B'' 2) () ?s0 = (Inr False, ?s0)"
    by simp
  from autoConnectOnce_guarded [OF u, of ?s1 "()"] c w d
  have b: "useAutoConnectOnce_autoConnectOnce (demoWallet ''B'' 2) () ?s1 =
     (Inr True, \<lparr>useStore = \<lparr>currentWallet = Some ''B'', connectionId = Some 1700000000000\<rparr>,
                world = [''B.autoConnectOnce'']\<rparr>)"
    by simp
  from a b show ?thesis by simp
qed

text \<open>
  The claim as it stands delegates whenever \<open>connectionId\<close> is set. Set to 0, the
  timestamp of the epoch, the connector would return \<open>true\<close> and is not called.
\<close>

theorem autoConnectOnce_zero_counterexample:
  "connectionId (useStore (demoSystem (Some ''A'') (Some 0))) = Some 0 \<and>
   useAutoConnectOnce_autoConnectOnce (demoWallet ''A'' 1) () (demoSystem (Some ''A'') (Some 0)) =
     (Inr False, demoSystem (Some ''A'') (Some 0)) \<and>
   autoConnectOnce (connector (demoWallet ''A'' 1)) () (demoSystem (Some ''A'') (Some 0)) =
     (Inr True, \<lparr>useStore = \<lparr>currentWallet = Some ''A'', connectionId = Some 0\<rparr>,
                world = [''A.autoConnectOnce'']\<rparr>)"
  by (simp add: useAutoConnectOnce_autoConnectOnce_def truthyNumber_def demoSystem_def
                demoWallet_def demoConnector_def logCall_def)

text \<open>
  C6, as amended. The function \<open>useDisconnect\<close> returns calls \<open>disconnect\<close> on the
  connector of the wallet \<open>useCurrentWallet\<close> gave it. When that call returns, with
  whatever value, \<open>connectionId\<close> is cleared and the value is passed on. When it is
  rejected, the rejection is passed on and the store is as the connector left it, the
  \<open>connectionId\<close> not cleared. So after a \<open>connect\<close> that returned, \<open>connectionId\<close> is
  the timestamp, and after a \<open>disconnect\<close> that returned it is unset.
\<close>

theorem disconnect_clears_when_delegate_returns:
  assumes "useDisconnect ws memo s0 = (disconnectFn, memo', s0')"
  shows "(\<forall>result s'.
            disconnect (connector (fst (useCurrentWallet ws memo s0))) args s = (Inr result, s') \<longrightarrow>
            disconnectFn args s =
              (Inr result, s'\<lparr>useStore := (useStore s')\<lparr>connectionId := None\<rparr>\<rparr>)) \<and>
         (\<forall>e s'.
            disconnect (connector (fst (useCurrentWallet ws memo s0))) args s = (Inl e, s') \<longrightarrow>
            disconnectFn args s = (Inl e, s')) \<and>
         (useConnect ws memo1 t0 = (connectFn, memo1', t0') \<and>
          connectFn args1 now t1 = (Inr (), t2) \<and>
          disconnectFn args2 t3 = (Inr result2, t4) \<longrightarrow>
            connectionId (useStore t2) = Some now \<and> connectionId (useStore t4) = None)"
proof -
  from assms have f: "disconnectFn =
      useDisconnect_disconnect (fst (useCurrentWallet ws memo s0))"
    by (auto simp: useDisconnect_def split: prod.splits)
  have a: "\<forall>result s'.
            disconnect (connector (fst (useCurrentWallet ws memo s0))) args s = (Inr result, s') \<longrightarrow>
            disconnectFn args s =
              (Inr result, s'\<lparr>useStore := (useStore s')\<lparr>connectionId := None\<rparr>\<rparr>)"
    unfolding f by (simp add: useDisconnect_disconnect_def)
  have b: "\<forall>e s'.
            disconnect (connector (fst (useCurrentWallet ws memo s0))) args s = (Inl e, s') \<longrightarrow>
            disconnectFn args s = (Inl e, s')"
    unfolding f by (simp add: useDisconnect_disconnect_def)
  have c: "useConnect ws memo1 t0 = (connectFn, memo1', t0') \<and>
          connectFn args1 now t1 = (Inr (), t2) \<and>
          disconnectFn args2 t3 = (Inr result2, t4) \<longrightarrow>
            connectionId (useStore t2) = Some now \<and> connectionId (useStore t4) = None"
  proof
    assume h: "useConnect ws memo1 t0 = (connectFn, memo1', t0') \<and>
          connectFn args1 now t1 = (Inr (), t2) \<and>
          disconnectFn args2 t3 = (Inr result2, t4)"
    then have g: "connectFn = useConnect_connect (fst (useCurrentWallet ws memo1 t0))"
      by (auto simp: useConnect_def split: prod.splits)
    from h have "connectionId (useStore t2) = Some now"
      unfolding g by (auto simp: useConnect_connect_def split: prod.splits sum.splits)
    moreover from h have "connectionId (useStore t4) = None"
      unfolding f by (auto simp: useDisconnect_disconnect_def split: prod.splits sum.splits)
    ultimately show "connectionId (useStore t2) = Some now \<and> connectionId (useStore t4) = None"
      by simp
  qed
  from a b c show ?thesis by blast
qed

theorem disconnect_clears_when_delegate_returns_witness:
  "useDisconnect [demoWallet ''A'' 1, demoWallet ''B'' 2] None (demoSystem (Some ''B'') None) =
     (useDisconnect_disconnect (demoWallet ''B'' 2), Some (Some ''B'', demoWallet ''B'' 2),
      demoSystem (Some ''B'') None) \<and>
   useConnect_connect (demoWallet ''B'' 2) () 1700000000000 (demoSystem (Some ''B'') None) =
     (Inr (), \<lparr>useStore = \<lparr>currentWallet = Some ''B'', connectionId = Some 1700000000000\<rparr>,
              world = [''B.connect'']\<rparr>) \<and>
   useDisconnect_disconnect (demoWallet ''B'' 2) ()
     \<lparr>useStore = \<lparr>currentWallet = Some ''B'', connectionId = Some 1700000000000\<rparr>,
      world = [''B.connect'']\<rparr> =
     (Inr True, \<lparr>useStore = \<lparr>currentWallet = Some ''B'', connectionId = None\<rparr>,
                world = [''B.connect'', ''B.disconnect'']\<rparr>)"
proof -
  let ?ws = "[demoWallet ''A'' 1, demoWallet ''B'' 2]"
  let ?s0 = "demoSystem (Some ''B'') None"
  let ?s1 = "\<lparr>useStore = \<lparr>currentWallet = Some ''B'', connectionId = Some 1700000000000\<rparr>,
      world = [''B.connect'']\<rparr>"
  have u: "useDisconnect ?ws None ?s0 =
     (useDisconnect_disconnect (demoWallet ''B'' 2), Some (Some ''B'', demoWallet ''B'' 2), ?s0)"
    by (simp add: useDisconnect_def useCurrentWallet_def useMemo_def Let_def demoSystem_def
                  demoWallet_def)
  have w: "fst (useCurrentWallet ?ws None ?s0) = demoWallet ''B'' 2"
    by (simp add: useCurrentWallet_def useMemo_def Let_def demoSystem_def demoWallet_def)
  have c: "useConnect_connect (demoWallet ''B'' 2) () 1700000000000 ?s0 = (Inr (), ?s1)"
    by (simp add: useConnect_connect_def demoWallet_def demoConnector_def demoSystem_def
                  logCall_def)
  have d: "disconnect (connector (fst (useCurrentWallet ?ws None ?s0))) () ?s1 =
             (Inr True, \<lparr>useStore = \<lparr>currentWallet = Some ''B'',
                                      connectionId = Some 1700000000000\<rparr>,
                         world = [''B.connect'', ''B.disconnect'']\<rparr>)"
    unfolding w by (simp add: demoWallet_def demoConnector_def logCall_def)
  from disconnect_clears_when_delegate_returns [OF u, of "()" ?s1]
  have "\<forall>result s'.
          disconnect (connector (fst (useCurrentWallet ?ws None ?s0))) () ?s1 = (Inr result, s') \<longrightarrow>
          useDisconnect_disconnect (demoWallet ''B'' 2) () ?s1 =
            (Inr result, s'\<lparr>useStore := (useStore s')\<lparr>connectionId := None\<rparr>\<rparr>)"
    by blast
  from this [rule_format, OF d]
  have "useDisconnect_disconnect (demoWallet ''B'' 2) () ?s1 =
     (Inr True, \<lparr>useStore = \<lparr>currentWallet = Some ''B'', connectionId = None\<rparr>,
                world = [''B.connect'', ''B.disconnect'']\<rparr>)"
    by simp
  with u c show ?thesis by simp
qed

text \<open>
  The claim as it stands clears \<open>connectionId\<close> also when the delegated call fails.
  The assignment follows the \<open>await\<close>, so a rejected \<open>disconnect\<close> leaves it set.
\<close>

theorem disconnect_rejected_counterexample:
  "useDisconnect [rejectingWallet ''A'' 1] None (demoSystem (Some ''A'') (Some 5)) =
     (useDisconnect_disconnect (rejectingWallet ''A'' 1),
      Some (Some ''A'', rejectingWallet ''A'' 1), demoSystem (Some ''A'') (Some 5)) \<and>
   useDisconnect_disconnect (rejectingWallet ''A'' 1) () (demoSystem (Some ''A'') (Some 5)) =
     (Inl ''rejected'',
      \<lparr>useStore = \<lparr>currentWallet = Some ''A'', connectionId = Some 5\<rparr>,
       world = [''A.disconnect'']\<rparr>)"
  by (simp add: useDisconnect_def useCurrentWallet_def useMemo_def Let_def
                useDisconnect_disconnect_def demoSystem_def rejectingWallet_def
                rejectingConnector_def logCall_def)

end
